theory Spec2Isabelle
  imports Complex_Main
begin

section \<open>The configuration objects of ldmxcfg\<close>

text \<open>
  The module \<^verbatim>\<open>Framework/python/ldmxcfg.py\<close> builds a graph of mutable Python objects:
  one \<^verbatim>\<open>Process\<close>, reachable from the class attribute \<^verbatim>\<open>Process.lastProcess\<close>, the
  conditions object providers it lists and the event processors of its sequence. Objects
  are shared by reference (a provider is mutated after it was put into the list of the
  process), so the model keeps an explicit store: objects live at addresses, lists hold
  addresses, and every method takes the store and returns the updated one.
\<close>

type_synonym addr = nat

text \<open>
  Python values that end up in attributes. Floats are carried as exact rationals; the
  descriptor built by \<^verbatim>\<open>LDMX.Framework.histogram.histogram\<close> (a module that is not part of
  the sources at hand) is kept as the list of the arguments its constructor was given.
\<close>

datatype val =
    VStr string
  | VInt int
  | VFloat rat
  | VBool bool
  | VNone
  | VList "val list"
  | VHistogram "val list"

datatype exn =
    Exception string
  | ValueError string
  | AttributeError string
  | TypeError string
  | CalledProcessError int

datatype pyclass = EventProcessorClass | ProducerClass | AnalyzerClass

text \<open>
  An \<^verbatim>\<open>EventProcessor\<close>: the three attributes of \<^verbatim>\<open>__init__\<close> and, after them in
  insertion order, every further attribute that was assigned (\<^verbatim>\<open>__dict__\<close> keeps the order
  of first assignment). The attributes are values of any type, since \<^verbatim>\<open>from_file\<close>
  assigns caller-given values under caller-given names.
\<close>

record EventProcessor =
  cls :: pyclass
  instanceName :: val
  className :: val
  histograms :: val
  parameters :: "(string \<times> val) list"

text \<open>
  A \<^verbatim>\<open>ConditionsObjectProvider\<close> (the class name attribute is \<open>className\<close> in the source
  too; the record field carries a suffix to keep it apart from the processor's). A
  \<^verbatim>\<open>RandomNumberSeedService\<close> is a provider with the further attributes \<open>seedMode\<close> and
  \<open>seed\<close>.
\<close>

record ConditionsObjectProvider =
  objectName :: string
  className_cop :: string
  tagName :: string
  attributes :: "(string \<times> val) list"

record Process =
  passName :: string
  maxEvents :: int
  maxTriesPerEvent :: int
  run :: int
  inputFiles :: "string list"
  outputFiles :: "string list"
  sequence :: "addr list"
  keep :: "string list"
  libraries :: "string list"
  skimDefaultIsKeep :: bool
  skimRules :: "string list"
  logFrequency :: int
  termLogLevel :: int
  fileLogLevel :: int
  logFileName :: string
  compressionSetting :: int
  histogramFile :: string
  conditionsGlobalTag :: string
  conditionsObjectProviders :: "addr list"
  tree_name :: string
  randomNumberSeedService :: "addr option"

text \<open>
  A resolved path is the list of its components below the root; \<open>files\<close> gives the
  modification time of every path that is a regular file. \<open>compiler_runs\<close> logs the
  argument lists \<^verbatim>\<open>subprocess.run\<close> was called with, \<open>stdout\<close> the lines printed.
\<close>

type_synonym path = "string list"

text \<open>
  A path as the caller writes it, before it is resolved: its components, relative to the
  working directory or below the root (the step from a string to a \<^verbatim>\<open>Path\<close> is taken as
  done).
\<close>

datatype given_path = Relative "string list" | Absolute "string list"

record world =
  lastProcess :: "addr option"
  processes :: "addr \<Rightarrow> Process"
  providers :: "addr \<Rightarrow> ConditionsObjectProvider"
  processors :: "addr \<Rightarrow> EventProcessor"
  next_addr :: addr
  files :: "path \<Rightarrow> rat option"
  compiler_runs :: "string list list"
  stdout :: "string list"

type_synonym 'a action = "world \<Rightarrow> (exn + 'a) \<times> world"

definition update_process :: "addr \<Rightarrow> (Process \<Rightarrow> Process) \<Rightarrow> world \<Rightarrow> world" where
  "update_process p f w = w\<lparr>processes := (processes w)(p := f (processes w p))\<rparr>"

definition update_provider ::
  "addr \<Rightarrow> (ConditionsObjectProvider \<Rightarrow> ConditionsObjectProvider) \<Rightarrow> world \<Rightarrow> world" where
  "update_provider c f w = w\<lparr>providers := (providers w)(c := f (providers w c))\<rparr>"


subsection \<open>Strings\<close>

text \<open>
  \<^verbatim>\<open>str.replace(old, new)\<close>: the occurrences of \<open>old\<close> are replaced from the left, without
  overlap; an empty \<open>old\<close> matches before every character and at the end.
\<close>

function replace :: "string \<Rightarrow> string \<Rightarrow> string \<Rightarrow> string" where
  "replace old new [] = (if old = [] then new else [])"
| "replace old new (c # cs) =
     (if old = [] then new @ c # replace old new cs
      else if take (length old) (c # cs) = old
        then new @ replace old new (drop (length old) (c # cs))
      else c # replace old new cs)"
  by pat_completeness auto
termination
  by (relation "measure (\<lambda>(old, new, s). length s)") auto


subsection \<open>ConditionsObjectProvider\<close>

definition setTag :: "string \<Rightarrow> ConditionsObjectProvider \<Rightarrow> ConditionsObjectProvider" where
  "setTag newtag self = self\<lparr>tagName := newtag\<rparr>"

text \<open>\<^verbatim>\<open>__eq__\<close>: same object name and same class name.\<close>

definition cop_eq :: "ConditionsObjectProvider \<Rightarrow> ConditionsObjectProvider \<Rightarrow> bool" where
  "cop_eq self other = (objectName self = objectName other \<and> className_cop self = className_cop other)"

subsection \<open>Process: the static registration functions\<close>

definition addLibrary :: "string \<Rightarrow> unit action" where
  "addLibrary lib w =
     (case lastProcess w of
        Some p \<Rightarrow> (Inr (), update_process p (\<lambda>P. P\<lparr>libraries := libraries P @ [lib]\<rparr>) w)
      | None \<Rightarrow>
          (Inl (Exception
             ''No Process object defined yet! You need to create a Process before creating any EventProcessors.''),
           w))"

definition actual_module_name :: "string \<Rightarrow> string" where
  "actual_module_name module_name = replace ''::'' ''_'' (replace ''/'' ''_'' module_name)"

definition addModule :: "string \<Rightarrow> unit action" where
  "addModule module_name =
     addLibrary (''@CMAKE_INSTALL_PREFIX@/lib/lib'' @ actual_module_name module_name @ ''.so'')"

text \<open>
  The scan of \<^verbatim>\<open>declareConditionsObjectProvider\<close>: the first entry equal to \<open>cop\<close> is
  overwritten with \<open>cop\<close> and the scan stops; \<open>None\<close> when the loop runs to its end.
\<close>

fun override_declared :: "(addr \<Rightarrow> bool) \<Rightarrow> addr \<Rightarrow> addr list \<Rightarrow> addr list option" where
  "override_declared eq cop [] = None"
| "override_declared eq cop (already_defined_cop # rest) =
     (if eq already_defined_cop then Some (cop # rest)
      else map_option ((#) already_defined_cop) (override_declared eq cop rest))"

definition declareConditionsObjectProvider :: "addr \<Rightarrow> unit action" where
  "declareConditionsObjectProvider cop w =
     (case lastProcess w of
        Some p \<Rightarrow>
          (let w1 = update_provider cop (setTag (conditionsGlobalTag (processes w p))) w;
               declared = conditionsObjectProviders (processes w1 p)
           in case override_declared (\<lambda>a. cop_eq (providers w1 cop) (providers w1 a)) cop declared of
                Some declared' \<Rightarrow>
                  (Inr (), update_process p (\<lambda>P. P\<lparr>conditionsObjectProviders := declared'\<rparr>) w1)
              | None \<Rightarrow>
                  (Inr (), update_process p
                     (\<lambda>P. P\<lparr>conditionsObjectProviders := conditionsObjectProviders P @ [cop]\<rparr>) w1))
      | None \<Rightarrow>
          (Inl (Exception
             ''No Process object defined yet! You need to create a Process before declaring any ConditionsObjectProviders.''),
           w))"

subsection \<open>Constructors\<close>

text \<open>
  \<^verbatim>\<open>ConditionsObjectProvider.__init__\<close> on the fresh object at \<open>self\<close>: the attributes are
  set, then the module is added and the provider declares itself.
\<close>

definition ConditionsObjectProvider_init :: "addr \<Rightarrow> string \<Rightarrow> string \<Rightarrow> string \<Rightarrow> unit action" where
  "ConditionsObjectProvider_init self objName clsName moduleName w =
     (let w1 = w\<lparr>providers := (providers w)(self :=
                 \<lparr>objectName = objName, className_cop = clsName, tagName = '''', attributes = []\<rparr>)\<rparr>
      in case addModule moduleName w1 of
           (Inl e, w2) \<Rightarrow> (Inl e, w2)
         | (Inr _, w2) \<Rightarrow> declareConditionsObjectProvider self w2)"

text \<open>Assignment to an attribute: an existing key keeps its place, a new one goes last.\<close>

fun dict_set :: "string \<Rightarrow> val \<Rightarrow> (string \<times> val) list \<Rightarrow> (string \<times> val) list" where
  "dict_set k v [] = [(k, v)]"
| "dict_set k v ((k', v') # d) = (if k' = k then (k, v) # d else (k', v') # dict_set k v d)"

text \<open>
  \<^verbatim>\<open>RandomNumberSeedService()\<close>: allocates the service, runs the provider's constructor
  and sets \<open>seedMode\<close>, \<open>seed\<close> and then the run mode. Returns the new object.
\<close>

definition RandomNumberSeedService_new :: "addr action" where
  "RandomNumberSeedService_new w =
     (let self = next_addr w;
          w0 = w\<lparr>next_addr := Suc self\<rparr>
      in case ConditionsObjectProvider_init self ''RandomNumberSeedService''
                ''framework::RandomNumberSeedService'' ''Framework'' w0 of
           (Inl e, w1) \<Rightarrow> (Inl e, w1)
         | (Inr _, w1) \<Rightarrow>
             (Inr self,
              update_provider self (\<lambda>s. s\<lparr>attributes :=
                 dict_set ''seedMode'' (VStr ''run'')
                   (dict_set ''seed'' (VInt (- 1))
                      (dict_set ''seedMode'' (VStr '''') (attributes s)))\<rparr>) w1))"

text \<open>\<^verbatim>\<open>Process(passName)\<close>: returns the address of the new process.\<close>

definition Process_new :: "string \<Rightarrow> addr action" where
  "Process_new pass w =
     (case lastProcess w of
        Some _ \<Rightarrow>
          (Inl (Exception
             ''Process object is already created! You can only create one Process object in a script.''),
           w)
      | None \<Rightarrow>
          (let self = next_addr w;
               w1 = w\<lparr>next_addr := Suc self,
                      processes := (processes w)(self :=
                        \<lparr>passName = pass, maxEvents = - 1, maxTriesPerEvent = 1, run = - 1,
                         inputFiles = [], outputFiles = [], sequence = [], keep = [],
                         libraries = [], skimDefaultIsKeep = True, skimRules = [],
                         logFrequency = - 1, termLogLevel = 2, fileLogLevel = 0,
                         logFileName = '''', compressionSetting = 9, histogramFile = '''',
                         conditionsGlobalTag = ''Default'', conditionsObjectProviders = [],
                         tree_name = ''LDMX_Events'', randomNumberSeedService = None\<rparr>),
                      lastProcess := Some self\<rparr>
           in case RandomNumberSeedService_new w1 of
                (Inl e, w2) \<Rightarrow> (Inl e, w2)
              | (Inr rnss, w2) \<Rightarrow>
                  (Inr self, update_process self (\<lambda>P. P\<lparr>randomNumberSeedService := Some rnss\<rparr>) w2)))"

subsection \<open>Process: methods\<close>

definition setConditionsGlobalTag :: "addr \<Rightarrow> string \<Rightarrow> world \<Rightarrow> world" where
  "setConditionsGlobalTag self tag w =
     (let w1 = update_process self (\<lambda>P. P\<lparr>conditionsGlobalTag := tag\<rparr>) w
      in foldl (\<lambda>w' cop. update_provider cop (setTag tag) w') w1
           (conditionsObjectProviders (processes w1 self)))"

definition skimConsider :: "addr \<Rightarrow> string \<Rightarrow> world \<Rightarrow> world" where
  "skimConsider self namePat w =
     update_process self (\<lambda>P. P\<lparr>skimRules := skimRules P @ [''''] \<rparr>)
       (update_process self (\<lambda>P. P\<lparr>skimRules := skimRules P @ [namePat]\<rparr>) w)"

definition skimConsiderLabelled :: "addr \<Rightarrow> string \<Rightarrow> string \<Rightarrow> world \<Rightarrow> world" where
  "skimConsiderLabelled self namePat labelPat w =
     update_process self (\<lambda>P. P\<lparr>skimRules := skimRules P @ [labelPat]\<rparr>)
       (update_process self (\<lambda>P. P\<lparr>skimRules := skimRules P @ [namePat]\<rparr>) w)"

text \<open>
  The flat list of skim rules read as pairs, the way \<^verbatim>\<open>__str__\<close> reads it: entries
  \<open>i\<close> and \<open>i + 1\<close> for every even \<open>i\<close> below the length minus one.
\<close>

fun skim_pairs :: "string list \<Rightarrow> (string \<times> string) list" where
  "skim_pairs (namePat # labelPat # rest) = (namePat, labelPat) # skim_pairs rest"
| "skim_pairs _ = []"

subsection \<open>What the interpreter and the machine decide\<close>

text \<open>
  Four things are fixed outside the module and are parameters of the model:
  \<^item> \<open>resolve\<close>: \<^verbatim>\<open>Path.resolve\<close>, which depends on the working directory and on links;
  \<^item> \<open>compiler\<close>: what the external \<^verbatim>\<open>g++\<close> does when run with an argument list on the
    files: its exit code and the files afterwards;
  \<^item> \<open>set_order\<close>: the order in which iteration visits \<^verbatim>\<open>set(xs)\<close>. Python promises
    that every element is visited once; the order follows the hash values of the
    strings, which the interpreter seeds anew at every start;
  \<^item> \<open>str_other\<close>: the built-in \<^verbatim>\<open>str\<close> on floats, lists and objects, and \<open>object_repr\<close>:
    the default rendering of an object without \<^verbatim>\<open>__str__\<close>, which shows its address.
\<close>

record platform =
  resolve :: "given_path \<Rightarrow> path"
  compiler :: "string list \<Rightarrow> (path \<Rightarrow> rat option) \<Rightarrow> int \<times> (path \<Rightarrow> rat option)"
  set_order :: "string list \<Rightarrow> string list"
  str_other :: "val \<Rightarrow> string"
  object_repr :: "addr \<Rightarrow> string"

subsection \<open>Paths\<close>








subsection \<open>EventProcessor\<close>





definition dict_of :: "EventProcessor \<Rightarrow> (string \<times> val) list" where
  "dict_of self =
     [(''instanceName'', instanceName self), (''className'', className self),
      (''histograms'', histograms self)] @ parameters self"








subsection \<open>Histograms\<close>

text \<open>
  Modelled from the spec: the histogram descriptor of \<^verbatim>\<open>LDMX.Framework.histogram\<close>, a
  module that is not among the sources. The spec calls it a histogram descriptor object
  appended to the histogram list of the processor; the model keeps the arguments of the
  constructor call.
\<close>

definition histogram :: "val list \<Rightarrow> val" where
  "histogram args = VHistogram args"

text \<open>
  Modelled from the spec: \<^verbatim>\<open>uniform_binning\<close> of the same absent module. The spec says that
  a (count, min, max) triple is converted to uniform edges and that \<open>(10, 0., 1.)\<close> gives
  10 uniform edges spanning \<open>[0,1]\<close>: as many edges as the count, equally spaced, the first
  at min and the last at max. Floats are computed as exact rationals.
\<close>

definition uniform_edges :: "nat \<Rightarrow> rat \<Rightarrow> rat \<Rightarrow> rat list" where
  "uniform_edges n minedge maxedge =
     map (\<lambda>i. minedge + of_nat i * (maxedge - minedge) / of_nat (n - 1)) [0..<n]"

fun uniform_binning :: "val \<Rightarrow> val \<Rightarrow> val \<Rightarrow> exn + val" where
  "uniform_binning (VInt n) (VFloat minedge) (VFloat maxedge) =
     Inr (VList (map VFloat (uniform_edges (nat n) minedge maxedge)))"
| "uniform_binning _ _ _ = Inl (Exception ''uniform_binning: not a (count, min, max) triple'')"

text \<open>\<^verbatim>\<open>xs.append(x)\<close> on an attribute value: only a list has the method.\<close>

fun append_val :: "val \<Rightarrow> val \<Rightarrow> exn + val" where
  "append_val (VList xs) x = Inr (VList (xs @ [x]))"
| "append_val _ x = Inl (AttributeError ''append'')"

text \<open>
  \<^verbatim>\<open>build1DHistogram(name, xlabel, bins, xmin, xmax)\<close>; the helper that converts a triple
  to edges is the first argument.
\<close>

definition build1DHistogram ::
  "(val \<Rightarrow> val \<Rightarrow> val \<Rightarrow> exn + val) \<Rightarrow> val \<Rightarrow> val \<Rightarrow> val \<Rightarrow> val \<Rightarrow> val
     \<Rightarrow> EventProcessor \<Rightarrow> exn + EventProcessor" where
  "build1DHistogram binning name xlabel bins xmin xmax self =
     (case (if xmin \<noteq> VNone \<and> xmax \<noteq> VNone then binning bins xmin xmax else Inr bins) of
        Inl e \<Rightarrow> Inl e
      | Inr theBinEdges \<Rightarrow>
          (case append_val (histograms self) (histogram [name, xlabel, theBinEdges]) of
             Inl e \<Rightarrow> Inl e
           | Inr hs \<Rightarrow> Inr (self\<lparr>histograms := hs\<rparr>)))"

subsection \<open>Rendering\<close>

definition newline :: string where
  "newline = [CHR 0x0A]"

definition apostrophe :: string where
  "apostrophe = [CHR 0x27]"

text \<open>The decimal digits of an integer, as \<^verbatim>\<open>%d\<close> prints them.\<close>

fun str_nat :: "nat \<Rightarrow> string" where
  "str_nat n = (if n < 10 then [char_of (48 + n)] else str_nat (n div 10) @ [char_of (48 + n mod 10)])"

definition str_int :: "int \<Rightarrow> string" where
  "str_int i = (if i < 0 then ''-'' @ str_nat (nat (- i)) else str_nat (nat i))"

text \<open>\<^verbatim>\<open>str(v)\<close> and \<^verbatim>\<open>'%s' % v\<close>.\<close>

definition py_str :: "platform \<Rightarrow> val \<Rightarrow> string" where
  "py_str pf v =
     (case v of
        VStr s \<Rightarrow> s
      | VInt i \<Rightarrow> str_int i
      | VBool b \<Rightarrow> (if b then ''True'' else ''False'')
      | VNone \<Rightarrow> ''None''
      | _ \<Rightarrow> str_other pf v)"

text \<open>The block that the three \<^verbatim>\<open>__str__\<close> methods of the objects print for \<^verbatim>\<open>__dict__\<close>.\<close>

definition parameters_str :: "platform \<Rightarrow> (string \<times> val) list \<Rightarrow> string" where
  "parameters_str pf d =
     (if length d > 0
      then newline @ ''   Parameters:''
           @ concat (map (\<lambda>(k, v). newline @ ''    '' @ k @ '' : '' @ py_str pf v) d)
      else '''')"

definition Producer_str :: "platform \<Rightarrow> EventProcessor \<Rightarrow> string" where
  "Producer_str pf self =
     newline @ ''  Producer('' @ py_str pf (instanceName self) @ '' of class ''
     @ py_str pf (className self) @ '')'' @ parameters_str pf (dict_of self)"

definition Analyzer_str :: "platform \<Rightarrow> EventProcessor \<Rightarrow> string" where
  "Analyzer_str pf self =
     newline @ ''  Analyzer('' @ py_str pf (instanceName self) @ '' of class ''
     @ py_str pf (className self) @ '')'' @ parameters_str pf (dict_of self)"

text \<open>\<^verbatim>\<open>str(proc)\<close>: the plain \<^verbatim>\<open>EventProcessor\<close> has no \<^verbatim>\<open>__str__\<close> of its own.\<close>

definition processor_str :: "platform \<Rightarrow> world \<Rightarrow> addr \<Rightarrow> string" where
  "processor_str pf w a =
     (case cls (processors w a) of
        ProducerClass \<Rightarrow> Producer_str pf (processors w a)
      | AnalyzerClass \<Rightarrow> Analyzer_str pf (processors w a)
      | EventProcessorClass \<Rightarrow> object_repr pf a)"

definition ConditionsObjectProvider_str :: "platform \<Rightarrow> ConditionsObjectProvider \<Rightarrow> string" where
  "ConditionsObjectProvider_str pf self =
     newline @ ''  ConditionsObjectProvider('' @ objectName self @ '' of class ''
     @ className_cop self @ '', tag='' @ apostrophe @ tagName self @ apostrophe @ '')''
     @ parameters_str pf
         ([(''objectName'', VStr (objectName self)), (''className'', VStr (className_cop self)),
           (''tagName'', VStr (tagName self))] @ attributes self)"

definition files_str :: "string list \<Rightarrow> string list \<Rightarrow> string" where
  "files_str ins outs =
     (if length ins > 0 then
        (if length outs = length ins
         then newline @ '' Files:''
              @ concat (map (\<lambda>(i, out). newline @ ''  '' @ apostrophe @ i @ apostrophe @ '' -> ''
                                       @ apostrophe @ out @ apostrophe) (zip ins outs))
         else newline @ '' Input files:'' @ concat (map (\<lambda>afile. newline @ ''  '' @ afile) ins)
              @ (case outs of [] \<Rightarrow> '''' | out # _ \<Rightarrow> newline @ '' Output file: '' @ out))
      else (case outs of [] \<Rightarrow> '''' | out # _ \<Rightarrow> newline @ '' Output file: '' @ out))"

definition skim_str :: "bool \<Rightarrow> string list \<Rightarrow> string" where
  "skim_str default_keep rules =
     newline @ '' Skim rules:''
     @ (if default_keep then newline @ ''  Default: keep the event''
        else newline @ ''  Default: drop the event'')
     @ concat (map (\<lambda>(namePat, labelPat).
         if labelPat = ''''
         then newline @ ''  Listen to hints from processors with names matching ''
              @ apostrophe @ namePat @ apostrophe
         else newline @ ''  Listen to hints with labels matching '' @ apostrophe @ labelPat
              @ apostrophe @ '' from processors with names matching ''
              @ apostrophe @ namePat @ apostrophe) (skim_pairs rules))"

definition keep_str :: "string list \<Rightarrow> string" where
  "keep_str rules =
     (if length rules > 0
      then newline @ '' Rules for keeping previous products:''
           @ concat (map (\<lambda>arule. newline @ ''  '' @ arule) rules)
      else '''')"

text \<open>The last section: one line for every element of \<^verbatim>\<open>set(self.libraries)\<close>.\<close>

definition library_lines :: "platform \<Rightarrow> string list \<Rightarrow> string list" where
  "library_lines pf libs = map (\<lambda>afile. newline @ ''  '' @ afile) (set_order pf libs)"

definition libraries_str :: "platform \<Rightarrow> string list \<Rightarrow> string" where
  "libraries_str pf libs =
     (if length libs > 0
      then newline @ '' Shared libraries to load:'' @ concat (library_lines pf libs)
      else '''')"

text \<open>The sections of \<^verbatim>\<open>Process.__str__\<close> before the libraries.\<close>

definition report_head :: "platform \<Rightarrow> world \<Rightarrow> addr \<Rightarrow> string" where
  "report_head pf w self =
     (let P = processes w self
      in ''Process with pass name '' @ apostrophe @ passName P @ apostrophe
         @ (if run P > 0 then newline @ '' using run number '' @ str_int (run P) else '''')
         @ (if maxEvents P > 0
            then newline @ '' Maximum events to process: '' @ str_int (maxEvents P)
            else newline @ '' No limit on maximum events to process'')
         @ (if length (conditionsObjectProviders P) > 0
            then newline @ '' conditionsObjectProviders:'' @ newline
                 @ concat (map (\<lambda>cop. ConditionsObjectProvider_str pf (providers w cop))
                             (conditionsObjectProviders P))
            else '''')
         @ newline @ '' Processor sequence:''
         @ concat (map (processor_str pf w) (sequence P))
         @ files_str (inputFiles P) (outputFiles P)
         @ skim_str (skimDefaultIsKeep P) (skimRules P)
         @ keep_str (keep P))"

definition Process_str :: "platform \<Rightarrow> world \<Rightarrow> addr \<Rightarrow> string" where
  "Process_str pf w self = report_head pf w self @ libraries_str pf (libraries (processes w self))"

subsection \<open>A script and a machine to run the model on\<close>

text \<open>
  The state of an interpreter that has imported the module and done nothing else: no
  process, no files. The objects at the unused addresses are placeholders.
\<close>

definition start :: world where
  "start =
     \<lparr>lastProcess = None,
      processes = (\<lambda>_. \<lparr>passName = '''', maxEvents = 0, maxTriesPerEvent = 0, run = 0,
         inputFiles = [], outputFiles = [], sequence = [], keep = [], libraries = [],
         skimDefaultIsKeep = False, skimRules = [], logFrequency = 0, termLogLevel = 0,
         fileLogLevel = 0, logFileName = '''', compressionSetting = 0, histogramFile = '''',
         conditionsGlobalTag = '''', conditionsObjectProviders = [], tree_name = '''',
         randomNumberSeedService = None\<rparr>),
      providers = (\<lambda>_. \<lparr>objectName = '''', className_cop = '''', tagName = '''', attributes = []\<rparr>),
      processors = (\<lambda>_. \<lparr>cls = EventProcessorClass, instanceName = VNone, className = VNone,
         histograms = VNone, parameters = []\<rparr>),
      next_addr = 0,
      files = (\<lambda>_. None),
      compiler_runs = [],
      stdout = []\<rparr>"

text \<open>After \<^verbatim>\<open>p = ldmxcfg.Process('test')\<close>: the process is at address 0.\<close>

definition script :: world where
  "script = snd (Process_new ''test'' start)"

text \<open>
  A machine with the working directory \<^verbatim>\<open>/home\<close> whose compiler succeeds and writes its
  output file (the argument after \<^verbatim>\<open>-o\<close>) with time stamp 2, one whose compiler fails,
  and one that differs from the first only in the order in which a set is visited.
\<close>

definition path_of :: "string \<Rightarrow> path" where
  "path_of s =
     filter (\<lambda>c. c \<noteq> [])
       (foldr (\<lambda>ch acc. if ch = CHR ''/'' then [] # acc
                         else (case acc of [] \<Rightarrow> [[ch]] | c # cs \<Rightarrow> (ch # c) # cs)) s [])"

definition machine :: platform where
  "machine =
     \<lparr>resolve = (\<lambda>p. case p of Absolute q \<Rightarrow> q | Relative q \<Rightarrow> ''home'' # q),
      compiler = (\<lambda>args fs. (0, fs(path_of (args ! 4) := Some 2))),
      set_order = remdups,
      str_other = (\<lambda>_. ''?''),
      object_repr = (\<lambda>_. ''<object>'')\<rparr>"


definition other_machine :: platform where
  "other_machine = machine\<lparr>set_order := (\<lambda>xs. rev (remdups xs))\<rparr>"



text \<open>The script after \<^verbatim>\<open>Process.addLibrary('libSimCore.so')\<close>: two libraries to load.\<close>

definition two_libraries :: world where
  "two_libraries = snd (addLibrary ''libSimCore.so'' script)"

text \<open>Two adjacent colons somewhere in a string.\<close>

fun has_double_colon :: "string \<Rightarrow> bool" where
  "has_double_colon (a # b # s) = ((a = CHR '':'' \<and> b = CHR '':'') \<or> has_double_colon (b # s))"
| "has_double_colon _ = False"

section \<open>Properties\<close>

subsection \<open>The example script\<close>

lemma script_eval:
  "script = start\<lparr>lastProcess := Some 0, next_addr := 2,
     processes := (processes start)(0 :=
        \<lparr>passName = ''test'', maxEvents = - 1, maxTriesPerEvent = 1, run = - 1,
         inputFiles = [], outputFiles = [], sequence = [], keep = [],
         libraries = [''@CMAKE_INSTALL_PREFIX@/lib/libFramework.so''],
         skimDefaultIsKeep = True, skimRules = [],
         logFrequency = - 1, termLogLevel = 2, fileLogLevel = 0,
         logFileName = '''', compressionSetting = 9, histogramFile = '''',
         conditionsGlobalTag = ''Default'', conditionsObjectProviders = [1],
         tree_name = ''LDMX_Events'', randomNumberSeedService = Some 1\<rparr>),
     providers := (providers start)(1 :=
        \<lparr>objectName = ''RandomNumberSeedService'',
         className_cop = ''framework::RandomNumberSeedService'', tagName = ''Default'',
         attributes = [(''seedMode'', VStr ''run''), (''seed'', VInt (- 1))]\<rparr>)\<rparr>"
  by (simp add: script_def Process_new_def start_def RandomNumberSeedService_new_def
      ConditionsObjectProvider_init_def addModule_def addLibrary_def actual_module_name_def
      declareConditionsObjectProvider_def update_process_def update_provider_def setTag_def Let_def)

lemma script_lastProcess: "lastProcess script = Some 0"
  by (simp add: script_eval)

lemma script_skimRules: "skimRules (processes script 0) = []"
  by (simp add: script_eval)

lemma script_declared: "conditionsObjectProviders (processes script 0) = [1]"
  by (simp add: script_eval)

lemma start_lastProcess: "lastProcess start = None"
  by (simp add: start_def)

subsection \<open>One process per script\<close>

text \<open>
  C2: whenever the class-wide slot \<open>lastProcess\<close> holds a process, constructing another
  \<open>Process\<close> raises, whatever the pass name; nothing is changed by the attempt.
\<close>

theorem second_Process_raises:
  assumes "lastProcess w \<noteq> None"
  shows "\<exists>msg. Process_new pass w = (Inl (Exception msg), w)"
  using assms by (auto simp: Process_new_def)

theorem second_Process_raises_witness:
  "lastProcess script \<noteq> None \<and> (\<exists>msg. Process_new ''again'' script = (Inl (Exception msg), script))"
proof -
  have h: "lastProcess script \<noteq> None" by (simp add: script_lastProcess)
  from second_Process_raises[OF h, of "''again''"] h show ?thesis by simp
qed

subsection \<open>Registration without a process\<close>

text \<open>
  C3: while no process has been created (\<open>lastProcess\<close> is empty), \<open>addLibrary\<close>,
  \<open>addModule\<close> and \<open>declareConditionsObjectProvider\<close> raise for every argument and
  leave the state as it was.
\<close>

theorem registration_needs_Process:
  assumes "lastProcess w = None"
  shows "(\<exists>msg. addLibrary lib w = (Inl (Exception msg), w))
       \<and> (\<exists>msg. addModule m w = (Inl (Exception msg), w))
       \<and> (\<exists>msg. declareConditionsObjectProvider cop w = (Inl (Exception msg), w))"
  using assms by (simp add: addLibrary_def addModule_def declareConditionsObjectProvider_def)

theorem registration_needs_Process_witness:
  "lastProcess start = None
   \<and> (\<exists>msg. addLibrary ''libSimCore.so'' start = (Inl (Exception msg), start))
   \<and> (\<exists>msg. addModule ''SimCore'' start = (Inl (Exception msg), start))
   \<and> (\<exists>msg. declareConditionsObjectProvider 7 start = (Inl (Exception msg), start))"
  using registration_needs_Process[OF start_lastProcess, of "''libSimCore.so''" "''SimCore''" 7]
    start_lastProcess
  by simp

subsection \<open>Module names\<close>

lemma replace_slash:
  "replace ''/'' ''_'' s = map (\<lambda>c. if c = CHR ''/'' then CHR ''_'' else c) s"
  by (induction s) auto

lemma replace_colons_Cons:
  "replace ''::'' ''_'' (c # cs) =
     (if c = CHR '':'' \<and> cs \<noteq> [] \<and> hd cs = CHR '':'' then CHR ''_'' # replace ''::'' ''_'' (tl cs)
      else c # replace ''::'' ''_'' cs)"
  by (cases cs) auto

lemma set_replace_colons: "set (replace ''::'' ''_'' s) \<subseteq> insert (CHR ''_'') (set s)"
proof (induction "length s" arbitrary: s rule: less_induct)
  case less
  show ?case
  proof (cases s)
    case Nil
    then show ?thesis by simp
  next
    case (Cons c cs)
    show ?thesis
    proof (cases "c = CHR '':'' \<and> cs \<noteq> [] \<and> hd cs = CHR '':''")
      case True
      then obtain t where t: "cs = CHR '':'' # t" by (cases cs) auto
      have "set (replace ''::'' ''_'' t) \<subseteq> insert (CHR ''_'') (set t)"
        using less[of t] Cons t by simp
      then show ?thesis unfolding Cons replace_colons_Cons using True t by auto
    next
      case False
      have "set (replace ''::'' ''_'' cs) \<subseteq> insert (CHR ''_'') (set cs)"
        using less[of cs] Cons by simp
      then show ?thesis unfolding Cons replace_colons_Cons using False by auto
    qed
  qed
qed

lemma actual_module_name_no_slash: "CHR ''/'' \<notin> set (actual_module_name m)"
proof -
  have "CHR ''/'' \<notin> set (replace ''/'' ''_'' m)" by (auto simp: replace_slash)
  then show ?thesis
    unfolding actual_module_name_def using set_replace_colons[of "replace ''/'' ''_'' m"] by auto
qed

text \<open>
  After the replacement of \<open>::\<close> no two colons are adjacent; the second conjunct is what
  the induction needs: a colon at the front of the result was at the front of the input,
  with no colon after it.
\<close>

lemma replace_colons_leaves_none:
  "\<not> has_double_colon (replace ''::'' ''_'' s) \<and>
   (\<forall>r. replace ''::'' ''_'' s = CHR '':'' # r \<longrightarrow>
        (\<exists>t. s = CHR '':'' # t \<and> (t = [] \<or> hd t \<noteq> CHR '':'')))"
proof (induction "length s" arbitrary: s rule: less_induct)
  case less
  show ?case
  proof (cases s)
    case Nil
    then show ?thesis by simp
  next
    case (Cons c cs)
    show ?thesis
    proof (cases "c = CHR '':'' \<and> cs \<noteq> [] \<and> hd cs = CHR '':''")
      case True
      then obtain t where t: "cs = CHR '':'' # t" by (cases cs) auto
      have ih: "\<not> has_double_colon (replace ''::'' ''_'' t)"
        using less[of t] Cons t by simp
      have eq: "replace ''::'' ''_'' s = CHR ''_'' # replace ''::'' ''_'' t"
        unfolding Cons replace_colons_Cons using True t by simp
      show ?thesis unfolding eq using ih by (cases "replace ''::'' ''_'' t") auto
    next
      case False
      have ih: "\<not> has_double_colon (replace ''::'' ''_'' cs)"
         "\<forall>r. replace ''::'' ''_'' cs = CHR '':'' # r \<longrightarrow> (\<exists>t. cs = CHR '':'' # t)"
        using less[of cs] Cons by auto
      have eq: "replace ''::'' ''_'' s = c # replace ''::'' ''_'' cs"
        unfolding Cons replace_colons_Cons using False by simp
      have 1: "\<not> has_double_colon (c # replace ''::'' ''_'' cs)"
      proof (cases "replace ''::'' ''_'' cs")
        case Nil
        then show ?thesis by simp
      next
        case (Cons b r)
        show ?thesis
        proof (cases "b = CHR '':''")
          case True
          with Cons ih(2) obtain t where "cs = CHR '':'' # t" by blast
          with False have "c \<noteq> CHR '':''" by auto
          then show ?thesis using Cons ih(1) by simp
        next
          case False
          then show ?thesis using Cons ih(1) by simp
        qed
      qed
      have 2: "c = CHR '':'' \<longrightarrow> (cs = [] \<or> hd cs \<noteq> CHR '':'')" using False by auto
      show ?thesis unfolding eq using 1 2 Cons by auto
    qed
  qed
qed

lemma actual_module_name_no_colons: "\<not> has_double_colon (actual_module_name m)"
  unfolding actual_module_name_def using replace_colons_leaves_none by blast

lemma addModule_Some:
  "lastProcess w = Some p \<Longrightarrow>
   addModule m w =
     (Inr (), w\<lparr>processes := (processes w)(p := (processes w p)\<lparr>libraries :=
        libraries (processes w p) @ [''@CMAKE_INSTALL_PREFIX@/lib/lib'' @ actual_module_name m @ ''.so'']\<rparr>)\<rparr>)"
  by (simp add: addModule_def addLibrary_def update_process_def)

text \<open>
  C4: with a process in place, \<open>addModule('Ecal/Event')\<close>, \<open>addModule('Ecal::Event')\<close> and
  \<open>addModule('Ecal_Event')\<close> append the same path to the libraries, the installed-library
  path of \<open>Ecal_Event\<close>; for every module name the appended path is built from the name
  with \<open>/\<close> and \<open>::\<close> replaced by \<open>_\<close>, so that neither is left in it.
\<close>

theorem addModule_spellings:
  assumes "lastProcess w = Some p"
  shows "(let w' = w\<lparr>processes := (processes w)(p := (processes w p)\<lparr>libraries :=
                      libraries (processes w p) @ [''@CMAKE_INSTALL_PREFIX@/lib/libEcal_Event.so'']\<rparr>)\<rparr>
          in addModule ''Ecal/Event'' w = (Inr (), w')
           \<and> addModule ''Ecal::Event'' w = (Inr (), w')
           \<and> addModule ''Ecal_Event'' w = (Inr (), w'))
       \<and> addModule m w =
           (Inr (), w\<lparr>processes := (processes w)(p := (processes w p)\<lparr>libraries :=
              libraries (processes w p)
              @ [''@CMAKE_INSTALL_PREFIX@/lib/lib'' @ actual_module_name m @ ''.so'']\<rparr>)\<rparr>)
       \<and> CHR ''/'' \<notin> set (actual_module_name m)
       \<and> \<not> has_double_colon (actual_module_name m)"
proof -
  have "actual_module_name ''Ecal/Event'' = ''Ecal_Event''"
    "actual_module_name ''Ecal::Event'' = ''Ecal_Event''"
    "actual_module_name ''Ecal_Event'' = ''Ecal_Event''"
    by (simp_all add: actual_module_name_def)
  then show ?thesis
    using assms actual_module_name_no_slash[of m] actual_module_name_no_colons[of m]
    by (simp add: addModule_Some Let_def)
qed

theorem addModule_spellings_witness:
  "lastProcess script = Some 0
   \<and> addModule ''Ecal/Event'' script = addModule ''Ecal_Event'' script
   \<and> addModule ''Ecal::Event'' script = addModule ''Ecal_Event'' script
   \<and> libraries (processes (snd (addModule ''Ecal/Event'' script)) 0) =
       [''@CMAKE_INSTALL_PREFIX@/lib/libFramework.so'', ''@CMAKE_INSTALL_PREFIX@/lib/libEcal_Event.so'']
   \<and> \<not> has_double_colon (actual_module_name ''a:::b/::c'')"
proof -
  have libs: "libraries (processes script 0) = [''@CMAKE_INSTALL_PREFIX@/lib/libFramework.so'']"
    by (simp add: script_eval)
  from addModule_spellings[OF script_lastProcess, of "''a:::b/::c''"] script_lastProcess libs
  show ?thesis by (simp add: Let_def)
qed

subsection \<open>Skim rules\<close>

lemma skim_pairs_append:
  "even (length xs) \<Longrightarrow> skim_pairs (xs @ [n, l]) = skim_pairs xs @ [(n, l)]"
  by (induction xs rule: skim_pairs.induct) auto

lemma skimConsider_eq:
  "skimConsider p n w =
     w\<lparr>processes := (processes w)(p := (processes w p)\<lparr>skimRules := skimRules (processes w p) @ [n, '''']\<rparr>)\<rparr>"
  by (simp add: skimConsider_def update_process_def)

lemma skimConsiderLabelled_eq:
  "skimConsiderLabelled p n l w =
     w\<lparr>processes := (processes w)(p := (processes w p)\<lparr>skimRules := skimRules (processes w p) @ [n, l]\<rparr>)\<rparr>"
  by (simp add: skimConsiderLabelled_def update_process_def)

text \<open>
  C6: \<open>skimConsider(n)\<close> appends \<open>n\<close> and the empty label to the rules of the process,
  \<open>skimConsiderLabelled(n, l)\<close> appends \<open>n\<close> and \<open>l\<close>; the rules that were there stay in
  front and nothing else changes. Read as pairs, a list of even length (all that the two
  calls can build from the empty list) gains the pair \<open>(n, '')\<close> or \<open>(n, l)\<close> at its end,
  and from no rules \<open>skimConsider('foo')\<close> followed by \<open>skimConsiderLabelled('bar','baz')\<close>
  gives \<open>[('foo',''), ('bar','baz')]\<close>.
\<close>

theorem skim_rules_appended:
  "skimConsider p n w =
     w\<lparr>processes := (processes w)(p := (processes w p)\<lparr>skimRules := skimRules (processes w p) @ [n, '''']\<rparr>)\<rparr>
   \<and> skimConsiderLabelled p n l w =
     w\<lparr>processes := (processes w)(p := (processes w p)\<lparr>skimRules := skimRules (processes w p) @ [n, l]\<rparr>)\<rparr>
   \<and> (even (length (skimRules (processes w p))) \<longrightarrow>
        skim_pairs (skimRules (processes (skimConsider p n w) p))
          = skim_pairs (skimRules (processes w p)) @ [(n, '''')]
      \<and> skim_pairs (skimRules (processes (skimConsiderLabelled p n l w) p))
          = skim_pairs (skimRules (processes w p)) @ [(n, l)])
   \<and> (skimRules (processes w p) = [] \<longrightarrow>
        skim_pairs (skimRules (processes
           (skimConsiderLabelled p ''bar'' ''baz'' (skimConsider p ''foo'' w)) p))
          = [(''foo'', ''''), (''bar'', ''baz'')])"
  by (simp add: skimConsider_eq skimConsiderLabelled_eq skim_pairs_append)

theorem skim_rules_appended_witness:
  "skimRules (processes script 0) = [] \<and> even (length (skimRules (processes script 0)))
   \<and> skimRules (processes (skimConsiderLabelled 0 ''bar'' ''baz'' (skimConsider 0 ''foo'' script)) 0)
       = [''foo'', '''', ''bar'', ''baz'']
   \<and> skim_pairs (skimRules (processes
        (skimConsiderLabelled 0 ''bar'' ''baz'' (skimConsider 0 ''foo'' script)) 0))
       = [(''foo'', ''''), (''bar'', ''baz'')]"
  using skim_rules_appended[of 0 "''foo''" script "''''"]
    skim_rules_appended[of 0 "''bar''" "skimConsider 0 ''foo'' script" "''baz''"]
    script_skimRules
  by simp

subsection \<open>Conditions object providers\<close>
lemma override_declared_None: "override_declared eq c xs = None \<longleftrightarrow> (\<forall>a\<in>set xs. \<not> eq a)"
  by (induction xs) auto

lemma override_declared_Some:
  "override_declared eq c xs = Some ys \<Longrightarrow>
     \<exists>i<length xs. eq (xs ! i) \<and> (\<forall>j<i. \<not> eq (xs ! j)) \<and> ys = xs[i := c]"
proof (induction xs arbitrary: ys)
  case Nil
  then show ?case by simp
next
  case (Cons a xs)
  show ?case
  proof (cases "eq a")
    case True
    with Cons.prems have "ys = c # xs" by simp
    with True show ?thesis by (intro exI[of _ 0]) simp
  next
    case False
    with Cons.prems obtain zs where zs: "override_declared eq c xs = Some zs" and ys: "ys = a # zs"
      by auto
    from Cons.IH[OF zs] obtain i where i: "i < length xs" "eq (xs ! i)" "\<forall>j<i. \<not> eq (xs ! j)" "zs = xs[i := c]"
      by blast
    have "\<forall>j<Suc i. \<not> eq ((a # xs) ! j)"
      using False i(3) by (auto simp: nth_Cons split: nat.splits)
    with i ys show ?thesis by (intro exI[of _ "Suc i"]) simp
  qed
qed

lemma cop_eq_setTag: "cop_eq (setTag t a) b = cop_eq a b" "cop_eq a (setTag t b) = cop_eq a b"
  by (simp_all add: cop_eq_def setTag_def)

text \<open>
  C1: with a process in place, \<open>declareConditionsObjectProvider(c)\<close> first sets the tag
  of \<open>c\<close> to the global tag of the process and changes no other object. If the list of
  declared providers holds a provider equal to \<open>c\<close> (same object name, same class name),
  \<open>c\<close> is written over the first such entry: the list keeps its length and every other
  position. Otherwise \<open>c\<close> goes to the end of the list. Nothing else in the process changes.
\<close>

theorem declare_replaces_or_appends:
  assumes "lastProcess w = Some p"
  shows "\<exists>declared'.
     declareConditionsObjectProvider c w =
       (Inr (), w\<lparr>providers := (providers w)(c := (providers w c)\<lparr>tagName := conditionsGlobalTag (processes w p)\<rparr>),
                 processes := (processes w)(p := (processes w p)\<lparr>conditionsObjectProviders := declared'\<rparr>)\<rparr>)
     \<and> (let declared = conditionsObjectProviders (processes w p);
             same = (\<lambda>a. cop_eq (providers w c) (providers w a))
         in if \<exists>a\<in>set declared. same a
            then \<exists>i<length declared. same (declared ! i) \<and> (\<forall>j<i. \<not> same (declared ! j))
                   \<and> declared' = declared[i := c]
            else declared' = declared @ [c])"
proof -
  let ?tag = "conditionsGlobalTag (processes w p)"
  let ?w1 = "update_provider c (setTag ?tag) w"
  let ?declared = "conditionsObjectProviders (processes w p)"
  let ?same = "\<lambda>a. cop_eq (providers w c) (providers w a)"
  have same: "(\<lambda>a. cop_eq (providers ?w1 c) (providers ?w1 a)) = ?same"
    by (rule ext) (simp add: update_provider_def cop_eq_setTag)
  have proc: "processes ?w1 = processes w" by (simp add: update_provider_def)
  have unfold: "declareConditionsObjectProvider c w =
     (case override_declared ?same c ?declared of
        Some declared' \<Rightarrow>
          (Inr (), update_process p (\<lambda>P. P\<lparr>conditionsObjectProviders := declared'\<rparr>) ?w1)
      | None \<Rightarrow>
          (Inr (), update_process p
             (\<lambda>P. P\<lparr>conditionsObjectProviders := conditionsObjectProviders P @ [c]\<rparr>) ?w1))"
    unfolding declareConditionsObjectProvider_def using assms by (simp add: Let_def same proc)
  show ?thesis
  proof (cases "override_declared ?same c ?declared")
    case None
    then have "\<not> (\<exists>a\<in>set ?declared. ?same a)" by (simp add: override_declared_None)
    moreover have "declareConditionsObjectProvider c w =
       (Inr (), w\<lparr>providers := (providers w)(c := (providers w c)\<lparr>tagName := ?tag\<rparr>),
                 processes := (processes w)(p := (processes w p)\<lparr>conditionsObjectProviders := ?declared @ [c]\<rparr>)\<rparr>)"
      unfolding unfold None by (simp add: update_provider_def update_process_def setTag_def)
    ultimately show ?thesis by (intro exI[of _ "?declared @ [c]"]) (simp add: Let_def)
  next
    case (Some ys)
    from override_declared_Some[OF Some] obtain i where i: "i < length ?declared" "?same (?declared ! i)"
      "\<forall>j<i. \<not> ?same (?declared ! j)" "ys = ?declared[i := c]" by blast
    then have ex: "\<exists>a\<in>set ?declared. ?same a" using nth_mem by blast
    have "declareConditionsObjectProvider c w =
       (Inr (), w\<lparr>providers := (providers w)(c := (providers w c)\<lparr>tagName := ?tag\<rparr>),
                 processes := (processes w)(p := (processes w p)\<lparr>conditionsObjectProviders := ys\<rparr>)\<rparr>)"
      unfolding unfold Some by (simp add: update_provider_def update_process_def setTag_def)
    with ex i show ?thesis by (intro exI[of _ ys]) (auto simp: Let_def)
  qed
qed

theorem declare_replaces_or_appends_witness:
  "lastProcess script = Some 0
   \<and> conditionsObjectProviders (processes script 0) = [1]
   \<and> conditionsObjectProviders (processes (snd (declareConditionsObjectProvider 5
        (script\<lparr>providers := (providers script)(5 :=
           \<lparr>objectName = ''RandomNumberSeedService'',
            className_cop = ''framework::RandomNumberSeedService'', tagName = '''',
            attributes = []\<rparr>)\<rparr>))) 0) = [5]
   \<and> conditionsObjectProviders (processes (snd (declareConditionsObjectProvider 5 script)) 0) = [1, 5]
   \<and> tagName (providers (snd (declareConditionsObjectProvider 5 script)) 5) = ''Default''"
proof -
  let ?w = "script\<lparr>providers := (providers script)(5 :=
           \<lparr>objectName = ''RandomNumberSeedService'',
            className_cop = ''framework::RandomNumberSeedService'', tagName = '''',
            attributes = []\<rparr>)\<rparr>"
  have h: "lastProcess ?w = Some 0" by (simp add: script_lastProcess)
  from declare_replaces_or_appends[OF h, of 5] obtain d where
    d: "conditionsObjectProviders (processes (snd (declareConditionsObjectProvider 5 ?w)) 0) = d"
       "d = [5]"
    by (auto simp: Let_def script_eval cop_eq_def start_def)
  from declare_replaces_or_appends[OF script_lastProcess, of 5] obtain d' where
    d': "conditionsObjectProviders (processes (snd (declareConditionsObjectProvider 5 script)) 0) = d'"
       "d' = [1, 5]" "tagName (providers (snd (declareConditionsObjectProvider 5 script)) 5) = ''Default''"
    by (auto simp: Let_def script_eval cop_eq_def start_def)
  from d d' show ?thesis by (simp add: script_lastProcess script_declared)
qed

lemma foldl_setTag:
  "foldl (\<lambda>w' cop. update_provider cop (setTag tag) w') w cops =
     w\<lparr>providers := (\<lambda>a. if a \<in> set cops then setTag tag (providers w a) else providers w a)\<rparr>"
proof (induction cops arbitrary: w)
  case Nil
  then show ?case by simp
next
  case (Cons c cops)
  show ?case
    unfolding foldl_Cons Cons.IH
    by (auto simp: update_provider_def setTag_def fun_eq_iff)
qed

text \<open>
  C5: \<open>setConditionsGlobalTag(t)\<close> on the process \<open>p\<close> sets its global tag to \<open>t\<close> and
  the tag of every provider in its list to \<open>t\<close>, and changes nothing else: a provider
  that is not in the list at the time of the call is left as it was. Such a provider gets
  the global tag, now \<open>t\<close>, when it is declared through
  \<open>declareConditionsObjectProvider\<close> (with \<open>p\<close> the process of the script).
\<close>

theorem setConditionsGlobalTag_stamps_declared:
  "(let w' = setConditionsGlobalTag p t w; declared = conditionsObjectProviders (processes w p) in
     w' = w\<lparr>processes := (processes w)(p := (processes w p)\<lparr>conditionsGlobalTag := t\<rparr>),
            providers := (\<lambda>a. if a \<in> set declared then (providers w a)\<lparr>tagName := t\<rparr> else providers w a)\<rparr>
     \<and> conditionsGlobalTag (processes w' p) = t
     \<and> (\<forall>a\<in>set declared. tagName (providers w' a) = t)
     \<and> (\<forall>c. c \<notin> set declared \<longrightarrow> providers w' c = providers w c)
     \<and> (\<forall>c. lastProcess w = Some p \<longrightarrow>
           fst (declareConditionsObjectProvider c w') = Inr ()
         \<and> tagName (providers (snd (declareConditionsObjectProvider c w')) c) = t))"
  unfolding Let_def setConditionsGlobalTag_def foldl_setTag
  apply (intro conjI)
  subgoal by (simp add: update_process_def setTag_def cong: if_cong)
  subgoal by (simp add: update_process_def)
  subgoal by (simp add: update_process_def setTag_def)
  subgoal by (simp add: update_process_def)
  subgoal 
    by (auto simp add: update_process_def declareConditionsObjectProvider_def Let_def update_provider_def setTag_def split: option.splits)
  done


theorem setConditionsGlobalTag_stamps_declared_witness:
  "conditionsObjectProviders (processes script 0) = [1] \<and> lastProcess script = Some 0
   \<and> conditionsGlobalTag (processes (setConditionsGlobalTag 0 ''v2'' script) 0) = ''v2''
   \<and> tagName (providers (setConditionsGlobalTag 0 ''v2'' script) 1) = ''v2''
   \<and> providers (setConditionsGlobalTag 0 ''v2'' script) 5 = providers script 5
   \<and> tagName (providers (snd (declareConditionsObjectProvider 5
        (setConditionsGlobalTag 0 ''v2'' script))) 5) = ''v2''"
proof -
  note t = setConditionsGlobalTag_stamps_declared[of 0 "''v2''" script, unfolded Let_def script_declared]
  from t have a: "conditionsGlobalTag (processes (setConditionsGlobalTag 0 ''v2'' script) 0) = ''v2''"
    by blast
  from t have "\<forall>a\<in>set [1]. tagName (providers (setConditionsGlobalTag 0 ''v2'' script) a) = ''v2''"
    by blast
  then have b: "tagName (providers (setConditionsGlobalTag 0 ''v2'' script) 1) = ''v2''"
    by simp
  from t have "\<forall>c. c \<notin> set [1] \<longrightarrow> providers (setConditionsGlobalTag 0 ''v2'' script) c = providers script c"
    by blast
  then have c: "providers (setConditionsGlobalTag 0 ''v2'' script) 5 = providers script 5"
    by simp
  from t script_lastProcess have d: "tagName (providers (snd (declareConditionsObjectProvider 5
        (setConditionsGlobalTag 0 ''v2'' script))) 5) = ''v2''"
    by blast
  from a b c d show ?thesis by (simp add: script_lastProcess script_declared)
qed

subsection \<open>Histograms of a processor\<close>
lemma upt_10: "[0..<10] = [0, 1, 2, 3, 4, 5, 6, 7, 8, 9::nat]"
  by (simp add: upt_rec)

lemma uniform_edges_10:
  "uniform_edges 10 0 1 = [0, 1/9, 2/9, 1/3, 4/9, 5/9, 2/3, 7/9, 8/9, 1]"
  by (simp add: uniform_edges_def upt_10)

text \<open>
  C7: for a processor whose \<open>histograms\<close> attribute is a list (as the constructor makes
  it), \<open>build1DHistogram('h','x',10,0.,1.)\<close> appends exactly one descriptor, whose bin
  edges are the 10 uniform edges \<open>0, 1/9, \<dots>, 1\<close> spanning \<open>[0,1]\<close>, and
  \<open>build1DHistogram('h','x',[0.,0.5,1.])\<close> appends exactly one descriptor, whose bin
  edges are the list that was passed; no other attribute of the processor changes.
\<close>

theorem build1DHistogram_examples:
  assumes "histograms self = VList hs"
  shows "build1DHistogram uniform_binning (VStr ''h'') (VStr ''x'') (VInt 10) (VFloat 0) (VFloat 1) self
           = Inr (self\<lparr>histograms := VList (hs @
               [histogram [VStr ''h'', VStr ''x'',
                  VList (map VFloat [0, 1/9, 2/9, 1/3, 4/9, 5/9, 2/3, 7/9, 8/9, 1])]])\<rparr>)
       \<and> build1DHistogram uniform_binning (VStr ''h'') (VStr ''x'')
             (VList [VFloat 0, VFloat (1/2), VFloat 1]) VNone VNone self
           = Inr (self\<lparr>histograms := VList (hs @
               [histogram [VStr ''h'', VStr ''x'', VList [VFloat 0, VFloat (1/2), VFloat 1]]])\<rparr>)"
  using assms by (simp add: build1DHistogram_def uniform_edges_10)

theorem build1DHistogram_examples_witness:
  "histograms \<lparr>cls = ProducerClass, instanceName = VStr ''p'', className = VStr ''C'',
               histograms = VList [], parameters = []\<rparr> = VList []
   \<and> build1DHistogram uniform_binning (VStr ''h'') (VStr ''x'')
        (VList [VFloat 0, VFloat (1/2), VFloat 1]) VNone VNone
        \<lparr>cls = ProducerClass, instanceName = VStr ''p'', className = VStr ''C'',
         histograms = VList [], parameters = []\<rparr>
      = Inr \<lparr>cls = ProducerClass, instanceName = VStr ''p'', className = VStr ''C'',
         histograms = VList [VHistogram [VStr ''h'', VStr ''x'', VList [VFloat 0, VFloat (1/2), VFloat 1]]],
         parameters = []\<rparr>
   \<and> (\<exists>p. build1DHistogram uniform_binning (VStr ''h'') (VStr ''x'') (VInt 10) (VFloat 0) (VFloat 1)
        \<lparr>cls = ProducerClass, instanceName = VStr ''p'', className = VStr ''C'',
         histograms = VList [], parameters = []\<rparr> = Inr p
        \<and> (\<exists>es. histograms p = VList [VHistogram [VStr ''h'', VStr ''x'', VList es]]
              \<and> length es = 10 \<and> hd es = VFloat 0 \<and> last es = VFloat 1))"
  using build1DHistogram_examples[of "\<lparr>cls = ProducerClass, instanceName = VStr ''p'', className = VStr ''C'',
         histograms = VList [], parameters = []\<rparr>" "[]"]
  by (simp add: histogram_def)

text \<open>
  C10: when exactly one of \<open>xmin\<close> and \<open>xmax\<close> is given and the other is \<open>None\<close>,
  \<open>build1DHistogram\<close> does what it does with neither: \<open>bins\<close> itself goes into the
  descriptor as the bin edges, and the helper that computes uniform edges plays no part.
  The helper is called exactly when both are given.
\<close>

theorem build1DHistogram_one_limit:
  "((xmin = VNone) \<noteq> (xmax = VNone) \<longrightarrow>
      build1DHistogram binning name xlabel bins xmin xmax self
        = (case append_val (histograms self) (histogram [name, xlabel, bins]) of
             Inl e \<Rightarrow> Inl e | Inr hs \<Rightarrow> Inr (self\<lparr>histograms := hs\<rparr>))
    \<and> build1DHistogram binning name xlabel bins xmin xmax self
        = build1DHistogram binning name xlabel bins VNone VNone self)
   \<and> (xmin \<noteq> VNone \<and> xmax \<noteq> VNone \<longrightarrow>
      build1DHistogram binning name xlabel bins xmin xmax self
        = (case binning bins xmin xmax of
             Inl e \<Rightarrow> Inl e
           | Inr edges \<Rightarrow>
               (case append_val (histograms self) (histogram [name, xlabel, edges]) of
                  Inl e \<Rightarrow> Inl e | Inr hs \<Rightarrow> Inr (self\<lparr>histograms := hs\<rparr>))))"
  by (auto simp: build1DHistogram_def)

theorem build1DHistogram_one_limit_witness:
  "(VFloat 0 = VNone) \<noteq> (VNone = VNone)
   \<and> build1DHistogram uniform_binning (VStr ''h'') (VStr ''x'') (VInt 10) (VFloat 0) VNone
        \<lparr>cls = ProducerClass, instanceName = VStr ''p'', className = VStr ''C'',
         histograms = VList [], parameters = []\<rparr>
      = Inr \<lparr>cls = ProducerClass, instanceName = VStr ''p'', className = VStr ''C'',
         histograms = VList [VHistogram [VStr ''h'', VStr ''x'', VInt 10]],
         parameters = []\<rparr>
   \<and> build1DHistogram uniform_binning (VStr ''h'') (VStr ''x'') (VInt 10) VNone (VFloat 1)
        \<lparr>cls = ProducerClass, instanceName = VStr ''p'', className = VStr ''C'',
         histograms = VList [], parameters = []\<rparr>
      = Inr \<lparr>cls = ProducerClass, instanceName = VStr ''p'', className = VStr ''C'',
         histograms = VList [VHistogram [VStr ''h'', VStr ''x'', VInt 10]],
         parameters = []\<rparr>
   \<and> VFloat 0 \<noteq> VNone \<and> VFloat 1 \<noteq> VNone
   \<and> build1DHistogram (\<lambda>b lo hi. Inr (VList [lo, hi])) (VStr ''h'') (VStr ''x'') (VInt 10) (VFloat 0) (VFloat 1)
        \<lparr>cls = ProducerClass, instanceName = VStr ''p'', className = VStr ''C'',
         histograms = VList [], parameters = []\<rparr>
      = Inr \<lparr>cls = ProducerClass, instanceName = VStr ''p'', className = VStr ''C'',
         histograms = VList [VHistogram [VStr ''h'', VStr ''x'', VList [VFloat 0, VFloat 1]]],
         parameters = []\<rparr>"
  using build1DHistogram_one_limit[of "VFloat 0" VNone uniform_binning "VStr ''h''" "VStr ''x''" "VInt 10"
      "\<lparr>cls = ProducerClass, instanceName = VStr ''p'', className = VStr ''C'',
         histograms = VList [], parameters = []\<rparr>"]
    build1DHistogram_one_limit[of VNone "VFloat 1" uniform_binning "VStr ''h''" "VStr ''x''" "VInt 10"
      "\<lparr>cls = ProducerClass, instanceName = VStr ''p'', className = VStr ''C'',
         histograms = VList [], parameters = []\<rparr>"]
    build1DHistogram_one_limit[of "VFloat 0" "VFloat 1" "\<lambda>b lo hi. Inr (VList [lo, hi])" "VStr ''h''" "VStr ''x''" "VInt 10"
      "\<lparr>cls = ProducerClass, instanceName = VStr ''p'', className = VStr ''C'',
         histograms = VList [], parameters = []\<rparr>"]
  by (simp add: histogram_def)

subsection \<open>Processors compiled from a source file\<close>

























subsection \<open>The report\<close>


lemma py_str_cong: "str_other pf = str_other pf' \<Longrightarrow> py_str pf = py_str pf'"
  by (rule ext) (simp add: py_str_def split: val.splits)

lemma parameters_str_cong: "str_other pf = str_other pf' \<Longrightarrow> parameters_str pf = parameters_str pf'"
  by (rule ext) (simp add: parameters_str_def py_str_cong[of pf pf'])

lemma processor_str_cong:
  assumes "str_other pf = str_other pf'" "object_repr pf = object_repr pf'"
    "processors w a = processors w' a"
  shows "processor_str pf w a = processor_str pf' w' a"
  using assms
  by (simp add: processor_str_def Producer_str_def Analyzer_str_def
      py_str_cong[of pf pf'] parameters_str_cong[of pf pf'] split: pyclass.splits)

lemma ConditionsObjectProvider_str_cong:
  "str_other pf = str_other pf' \<Longrightarrow> ConditionsObjectProvider_str pf = ConditionsObjectProvider_str pf'"
  by (rule ext) (simp add: ConditionsObjectProvider_str_def parameters_str_cong[of pf pf'])

lemma report_head_cong:
  assumes pf: "str_other pf = str_other pf'" "object_repr pf = object_repr pf'"
    and P: "passName (processes w p) = passName (processes w' p')"
      "run (processes w p) = run (processes w' p')"
      "maxEvents (processes w p) = maxEvents (processes w' p')"
      "inputFiles (processes w p) = inputFiles (processes w' p')"
      "outputFiles (processes w p) = outputFiles (processes w' p')"
      "skimDefaultIsKeep (processes w p) = skimDefaultIsKeep (processes w' p')"
      "skimRules (processes w p) = skimRules (processes w' p')"
      "keep (processes w p) = keep (processes w' p')"
    and cops: "map (providers w) (conditionsObjectProviders (processes w p))
             = map (providers w') (conditionsObjectProviders (processes w' p'))"
    and seq: "sequence (processes w p) = sequence (processes w' p')"
      "\<forall>a\<in>set (sequence (processes w p)). processors w a = processors w' a"
  shows "report_head pf w p = report_head pf' w' p'"
proof -
  have len: "length (conditionsObjectProviders (processes w p))
           = length (conditionsObjectProviders (processes w' p'))"
    using cops by (metis length_map)
  have "map (\<lambda>cop. ConditionsObjectProvider_str pf (providers w cop)) (conditionsObjectProviders (processes w p))
      = map (ConditionsObjectProvider_str pf) (map (providers w) (conditionsObjectProviders (processes w p)))"
    by simp
  also have "\<dots> = map (ConditionsObjectProvider_str pf') (map (providers w') (conditionsObjectProviders (processes w' p')))"
    using cops ConditionsObjectProvider_str_cong[OF pf(1)] by simp
  finally have c: "map (\<lambda>cop. ConditionsObjectProvider_str pf (providers w cop)) (conditionsObjectProviders (processes w p))
      = map (\<lambda>cop. ConditionsObjectProvider_str pf' (providers w' cop)) (conditionsObjectProviders (processes w' p'))"
    by simp
  have s: "map (processor_str pf w) (sequence (processes w p))
         = map (processor_str pf' w') (sequence (processes w' p'))"
    unfolding seq(1)[symmetric] using seq(2) processor_str_cong[OF pf] by (intro map_cong) auto
  show ?thesis
    unfolding report_head_def Let_def c s len P by simp
qed

lemma library_lines_once:
  assumes "distinct (set_order pf libs)" "set (set_order pf libs) = set libs"
  shows "distinct (library_lines pf libs)"
    and "set (library_lines pf libs) = (\<lambda>afile. newline @ ''  '' @ afile) ` set libs"
  using assms by (auto simp: library_lines_def distinct_map inj_on_def)


lemma libraries_str_cong:
  assumes "set_order pf libs = set_order pf' libs'" "(libs = []) = (libs' = [])"
  shows "libraries_str pf libs = libraries_str pf' libs'"
  using assms by (simp add: libraries_str_def library_lines_def)

text \<open>
  C9, with the order of the set fixed: the report of \<open>__str__\<close> is a function of the
  reported configuration and of the order in which the interpreter visits \<open>set(self.libraries)\<close>. Two renderings
  agree when \<open>str\<close> on values is the same, the two sets of libraries are visited in the
  same order, and the processes agree on pass name, run number, event limit, providers,
  sequence, files, skim rules and keep rules; the libraries themselves may have been added
  any number of times. The report ends with the libraries, and when the set is visited as
  Python promises (every element once) each library has exactly one line.
\<close>

theorem Process_str_determined:
  assumes "str_other pf = str_other pf'" and "object_repr pf = object_repr pf'"
    and "set_order pf (libraries (processes w p)) = set_order pf' (libraries (processes w' p'))"
    and "(libraries (processes w p) = []) = (libraries (processes w' p') = [])"
    and "passName (processes w p) = passName (processes w' p')"
    and "run (processes w p) = run (processes w' p')"
    and "maxEvents (processes w p) = maxEvents (processes w' p')"
    and "inputFiles (processes w p) = inputFiles (processes w' p')"
    and "outputFiles (processes w p) = outputFiles (processes w' p')"
    and "skimDefaultIsKeep (processes w p) = skimDefaultIsKeep (processes w' p')"
    and "skimRules (processes w p) = skimRules (processes w' p')"
    and "keep (processes w p) = keep (processes w' p')"
    and "map (providers w) (conditionsObjectProviders (processes w p))
           = map (providers w') (conditionsObjectProviders (processes w' p'))"
    and "sequence (processes w p) = sequence (processes w' p')"
    and "\<forall>a\<in>set (sequence (processes w p)). processors w a = processors w' a"
  shows "Process_str pf w p = Process_str pf' w' p'
       \<and> Process_str pf w p =
           report_head pf w p
           @ (if libraries (processes w p) = [] then ''''
              else newline @ '' Shared libraries to load:''
                   @ concat (library_lines pf (libraries (processes w p))))
       \<and> (distinct (set_order pf (libraries (processes w p)))
            \<and> set (set_order pf (libraries (processes w p))) = set (libraries (processes w p)) \<longrightarrow>
          distinct (library_lines pf (libraries (processes w p)))
          \<and> set (library_lines pf (libraries (processes w p)))
              = (\<lambda>afile. newline @ ''  '' @ afile) ` set (libraries (processes w p)))"
proof -
  have head: "report_head pf w p = report_head pf' w' p'"
    using assms(1,2,5-15) by (rule report_head_cong)
  have libs: "libraries_str pf (libraries (processes w p)) = libraries_str pf' (libraries (processes w' p'))"
    using assms(3,4) by (rule libraries_str_cong)
  have 1: "Process_str pf w p = Process_str pf' w' p'"
    by (simp add: Process_str_def head libs)
  have 2: "Process_str pf w p =
           report_head pf w p
           @ (if libraries (processes w p) = [] then ''''
              else newline @ '' Shared libraries to load:''
                   @ concat (library_lines pf (libraries (processes w p))))"
    by (simp add: Process_str_def libraries_str_def)
  from 1 2 library_lines_once[of pf "libraries (processes w p)"] show ?thesis by blast
qed

lemma two_libraries_eval:
  "two_libraries = script\<lparr>processes := (processes script)(0 := (processes script 0)\<lparr>libraries :=
      [''@CMAKE_INSTALL_PREFIX@/lib/libFramework.so'', ''libSimCore.so'']\<rparr>)\<rparr>"
  by (simp add: two_libraries_def addLibrary_def update_process_def script_eval)

lemma again_eval:
  "snd (addLibrary ''libSimCore.so'' two_libraries) =
     script\<lparr>processes := (processes script)(0 := (processes script 0)\<lparr>libraries :=
      [''@CMAKE_INSTALL_PREFIX@/lib/libFramework.so'', ''libSimCore.so'', ''libSimCore.so'']\<rparr>)\<rparr>"
  by (simp add: two_libraries_eval addLibrary_def update_process_def script_eval)

theorem Process_str_determined_witness:
  "libraries (processes two_libraries 0)
     = [''@CMAKE_INSTALL_PREFIX@/lib/libFramework.so'', ''libSimCore.so'']
   \<and> libraries (processes (snd (addLibrary ''libSimCore.so'' two_libraries)) 0)
     = [''@CMAKE_INSTALL_PREFIX@/lib/libFramework.so'', ''libSimCore.so'', ''libSimCore.so'']
   \<and> Process_str machine two_libraries 0
     = Process_str machine (snd (addLibrary ''libSimCore.so'' two_libraries)) 0
   \<and> distinct (library_lines machine (libraries (processes (snd (addLibrary ''libSimCore.so'' two_libraries)) 0)))
   \<and> set (library_lines machine (libraries (processes (snd (addLibrary ''libSimCore.so'' two_libraries)) 0)))
     = {newline @ ''  '' @ ''@CMAKE_INSTALL_PREFIX@/lib/libFramework.so'', newline @ ''  '' @ ''libSimCore.so''}"
proof -
  let ?w = "snd (addLibrary ''libSimCore.so'' two_libraries)"
  have l1: "libraries (processes two_libraries 0)
     = [''@CMAKE_INSTALL_PREFIX@/lib/libFramework.so'', ''libSimCore.so'']"
    by (simp add: two_libraries_eval)
  have l2: "libraries (processes ?w 0)
     = [''@CMAKE_INSTALL_PREFIX@/lib/libFramework.so'', ''libSimCore.so'', ''libSimCore.so'']"
    by (simp add: again_eval)
  have ord: "set_order machine (libraries (processes ?w 0)) = set_order machine (libraries (processes two_libraries 0))"
    unfolding l1 l2 by (simp add: machine_def)
  have ne: "(libraries (processes ?w 0) = []) = (libraries (processes two_libraries 0) = [])"
    unfolding l1 l2 by simp
  have rest: "passName (processes ?w 0) = passName (processes two_libraries 0)"
    "run (processes ?w 0) = run (processes two_libraries 0)"
    "maxEvents (processes ?w 0) = maxEvents (processes two_libraries 0)"
    "inputFiles (processes ?w 0) = inputFiles (processes two_libraries 0)"
    "outputFiles (processes ?w 0) = outputFiles (processes two_libraries 0)"
    "skimDefaultIsKeep (processes ?w 0) = skimDefaultIsKeep (processes two_libraries 0)"
    "skimRules (processes ?w 0) = skimRules (processes two_libraries 0)"
    "keep (processes ?w 0) = keep (processes two_libraries 0)"
    "map (providers ?w) (conditionsObjectProviders (processes ?w 0))
       = map (providers two_libraries) (conditionsObjectProviders (processes two_libraries 0))"
    "sequence (processes ?w 0) = sequence (processes two_libraries 0)"
    "\<forall>a\<in>set (sequence (processes ?w 0)). processors ?w a = processors two_libraries a"
    unfolding again_eval unfolding two_libraries_eval by simp_all
  have d: "distinct (set_order machine (libraries (processes ?w 0)))
         \<and> set (set_order machine (libraries (processes ?w 0))) = set (libraries (processes ?w 0))"
    by (simp add: machine_def)
  note t = Process_str_determined[OF refl refl ord ne rest]
  from t have a: "Process_str machine ?w 0 = Process_str machine two_libraries 0" by blast
  from t d have b: "distinct (library_lines machine (libraries (processes ?w 0)))
        \<and> set (library_lines machine (libraries (processes ?w 0)))
          = (\<lambda>afile. newline @ ''  '' @ afile) ` set (libraries (processes ?w 0))" by blast
  from a b l1 show ?thesis unfolding l2 by simp
qed

lemma report_head_machines: "report_head other_machine w p = report_head machine w p"
  by (rule report_head_cong) (simp_all add: other_machine_def)

text \<open>
  C9, with the order of the set left open: the configuration alone does not fix the
  report. The two machines
  below agree on everything but the order in which a set is visited, both visit every
  element once, and they render the same process with two libraries differently.
\<close>

theorem Process_str_order_counterexample:
  "distinct (set_order machine (libraries (processes two_libraries 0)))
   \<and> set (set_order machine (libraries (processes two_libraries 0))) = set (libraries (processes two_libraries 0))
   \<and> distinct (set_order other_machine (libraries (processes two_libraries 0)))
   \<and> set (set_order other_machine (libraries (processes two_libraries 0))) = set (libraries (processes two_libraries 0))
   \<and> str_other other_machine = str_other machine
   \<and> object_repr other_machine = object_repr machine
   \<and> Process_str machine two_libraries 0 \<noteq> Process_str other_machine two_libraries 0"
proof -
  have l1: "libraries (processes two_libraries 0)
     = [''@CMAKE_INSTALL_PREFIX@/lib/libFramework.so'', ''libSimCore.so'']"
    by (simp add: two_libraries_eval)
  have "libraries_str machine (libraries (processes two_libraries 0))
      \<noteq> libraries_str other_machine (libraries (processes two_libraries 0))"
    unfolding l1 by (simp add: libraries_str_def library_lines_def machine_def other_machine_def newline_def)
  then have "Process_str machine two_libraries 0 \<noteq> Process_str other_machine two_libraries 0"
    by (simp add: Process_str_def report_head_machines)
  moreover have "distinct (set_order machine (libraries (processes two_libraries 0)))"
    "set (set_order machine (libraries (processes two_libraries 0))) = set (libraries (processes two_libraries 0))"
    "distinct (set_order other_machine (libraries (processes two_libraries 0)))"
    "set (set_order other_machine (libraries (processes two_libraries 0))) = set (libraries (processes two_libraries 0))"
    "str_other other_machine = str_other machine"
    "object_repr other_machine = object_repr machine"
    by (simp_all add: machine_def other_machine_def)
  ultimately show ?thesis by blast
qed

end
